theory Spec2Isabelle
  imports Complex_Main
begin

section \<open>The notebook \<open>ray/intro_to_ray.ipynb\<close>: values, arrays and the object store\<close>

text \<open>
  The notebook works on two-dimensional numpy arrays of \<open>float64\<close>. An element is a
  finite double, given by the rational number it denotes, or one of the three special
  values. No arithmetic on these values is defined here: the one numeric operation of the
  code, \<open>np.mean\<close>, belongs to numpy (it sums in floating point, rounds, may overflow to
  an infinity, and gives \<open>nan\<close> with a RuntimeWarning for an empty slice), and every
  function below that calls it takes it as its first parameter, \<open>np_mean\<close>.
\<close>

datatype cell = Finite (value_of: rat) | NaN | PosInf | NegInf

text \<open>
  The exceptions of Python and numpy that the statements of the modelled code can raise.
  \<open>InvalidObject\<close> is not a Python exception: a Python name always refers to a live
  object, and the branch only makes the lookup of an address total.
\<close>

datatype error = ValueError | IndexError | InvalidObject

text \<open>
  A two-dimensional array: its rows, and the length every row has (the second component
  of \<open>shape\<close>; the first is the number of rows). numpy has no ragged array, which
  \<open>wf_array\<close> says.
\<close>

record ndarray =
  ncols :: nat
  cells :: "cell list list"

definition shape :: "ndarray \<Rightarrow> nat \<times> nat" where
  "shape a = (length (cells a), ncols a)"

definition wf_array :: "ndarray \<Rightarrow> bool" where
  "wf_array a = list_all (\<lambda>r. length r = ncols a) (cells a)"

text \<open>\<open>np.zeros(shape)\<close>: a new array of that shape, filled with \<open>0.0\<close>.\<close>

definition np_zeros :: "nat \<times> nat \<Rightarrow> ndarray" where
  "np_zeros s = \<lparr>ncols = snd s, cells = replicate (fst s) (replicate (snd s) (Finite 0))\<rparr>"

text \<open>
  Arrays are mutable objects that several names and views may share, so they live in a
  store: the address of an object is its position, and a new object is put at the end.
\<close>

type_synonym addr = nat
type_synonym heap = "ndarray list"

definition alloc :: "heap \<Rightarrow> ndarray \<Rightarrow> addr \<times> heap" where
  "alloc h a = (length h, h @ [a])"

definition lookup :: "heap \<Rightarrow> addr \<Rightarrow> error + ndarray" where
  "lookup h p = (if p < length h then Inr (h ! p) else Inl InvalidObject)"

text \<open>
  \<open>data[i]\<close> as the iteration \<open>for i, row in enumerate(data)\<close> reads it: row \<open>i\<close> of the
  array as the store holds it at that moment (numpy hands out a view, not a copy).
\<close>

definition get_row :: "heap \<Rightarrow> addr \<Rightarrow> nat \<Rightarrow> error + cell list" where
  "get_row h p i =
     (case lookup h p of
        Inl e \<Rightarrow> Inl e
      | Inr a \<Rightarrow> if i < length (cells a) then Inr (cells a ! i) else Inl IndexError)"

text \<open>
  \<open>ma_data[i] = v\<close> for a one-dimensional \<open>v\<close>: numpy raises IndexError when there is
  no row \<open>i\<close>, copies \<open>v\<close> when it has the length of a row, repeats its element when it
  has length one (broadcasting), and raises ValueError otherwise. Only the array at
  \<open>q\<close> changes.
\<close>

definition set_row :: "heap \<Rightarrow> addr \<Rightarrow> nat \<Rightarrow> cell list \<Rightarrow> error + heap" where
  "set_row h q i v =
     (case lookup h q of
        Inl e \<Rightarrow> Inl e
      | Inr a \<Rightarrow>
          if \<not> i < length (cells a) then Inl IndexError
          else if length v = ncols a then Inr (h[q := a\<lparr>cells := (cells a)[i := v]\<rparr>])
          else if length v = 1
            then Inr (h[q := a\<lparr>cells := (cells a)[i := replicate (ncols a) (hd v)]\<rparr>])
          else Inl ValueError)"

section \<open>Slices\<close>

text \<open>
  Python's adjustment of one bound of a slice with step one to a sequence of length
  \<open>n\<close>: a negative bound counts from the end, and the result is clamped to \<open>0..n\<close>.
\<close>

definition adjust_index :: "int \<Rightarrow> nat \<Rightarrow> nat" where
  "adjust_index i n =
     (if i < 0 then (if i + int n < 0 then 0 else nat (i + int n))
      else if int n < i then n
      else nat i)"

text \<open>\<open>xs[start:stop]\<close>; a bound left out is \<open>None\<close>. Slicing never raises.\<close>

definition py_slice :: "'a list \<Rightarrow> int option \<Rightarrow> int option \<Rightarrow> 'a list" where
  "py_slice xs start stop =
     (let n = length xs;
          lo = (case start of None \<Rightarrow> 0 | Some i \<Rightarrow> adjust_index i n);
          hi = (case stop of None \<Rightarrow> n | Some i \<Rightarrow> adjust_index i n)
      in drop lo (take hi xs))"

section \<open>The moving average\<close>

text \<open>
  The element that the list comprehension of \<open>calc_moving_average\<close> and of
  \<open>calc_moving_average_ray\<close> (the same text in both) computes at index \<open>j\<close>:
  \<^verbatim>\<open>np.mean(row[j-window:j+1]) if j > window else np.mean(row[:j+1])\<close>
  The mean is numpy's, applied to a one-dimensional slice.
\<close>

definition ma_element :: "(cell list \<Rightarrow> cell) \<Rightarrow> cell list \<Rightarrow> int \<Rightarrow> nat \<Rightarrow> cell" where
  "ma_element np_mean row window j =
     (if int j > window
      then np_mean (py_slice row (Some (int j - window)) (Some (int j + 1)))
      else np_mean (py_slice row None (Some (int j + 1))))"

text \<open>The comprehension \<^verbatim>\<open>[... for j, _ in enumerate(row)]\<close>.\<close>

definition ma_comprehension :: "(cell list \<Rightarrow> cell) \<Rightarrow> cell list \<Rightarrow> int \<Rightarrow> cell list" where
  "ma_comprehension np_mean row window = map (ma_element np_mean row window) [0..<length row]"

text \<open>The default of the parameter \<open>window\<close> of both functions.\<close>

definition default_window :: int where
  "default_window = 10"

text \<open>
  The loop \<open>for i, row in enumerate(data)\<close> of \<open>calc_moving_average\<close>, over the row
  indices still to visit: read row \<open>i\<close> of \<open>data\<close>, build the comprehension, store it
  as row \<open>i\<close> of \<open>ma_data\<close>.
\<close>

fun ma_loop ::
  "(cell list \<Rightarrow> cell) \<Rightarrow> addr \<Rightarrow> addr \<Rightarrow> int \<Rightarrow> nat list \<Rightarrow> heap \<Rightarrow> error + heap" where
  "ma_loop np_mean data ma_data window [] h = Inr h"
| "ma_loop np_mean data ma_data window (i # rest) h =
     (case get_row h data i of
        Inl e \<Rightarrow> Inl e
      | Inr row \<Rightarrow>
          (case set_row h ma_data i (ma_comprehension np_mean row window) of
             Inl e \<Rightarrow> Inl e
           | Inr h' \<Rightarrow> ma_loop np_mean data ma_data window rest h'))"

text \<open>
  \<open>calc_moving_average(data, window)\<close>: \<open>data\<close> is the address of the input array;
  the result is the address of \<open>ma_data\<close> and the store after the call.
\<close>

definition calc_moving_average ::
  "(cell list \<Rightarrow> cell) \<Rightarrow> heap \<Rightarrow> addr \<Rightarrow> int \<Rightarrow> error + (addr \<times> heap)" where
  "calc_moving_average np_mean h data window =
     (case lookup h data of
        Inl e \<Rightarrow> Inl e
      | Inr a \<Rightarrow>
          (let (ma_data, h1) = alloc h (np_zeros (shape a))
           in case ma_loop np_mean data ma_data window [0..<length (cells a)] h1 of
                Inl e \<Rightarrow> Inl e
              | Inr h2 \<Rightarrow> Inr (ma_data, h2)))"

text \<open>
  The row-level \<open>calc_moving_average_ray(row, window)\<close> (the notebook's last definition
  of that name): the comprehension alone, as an array. It takes its row by value: Ray
  hands a task a copy of its argument.
\<close>

definition calc_moving_average_ray :: "(cell list \<Rightarrow> cell) \<Rightarrow> cell list \<Rightarrow> int \<Rightarrow> cell list" where
  "calc_moving_average_ray np_mean row window = ma_comprehension np_mean row window"

section \<open>The timer\<close>

text \<open>
  \<open>time.sleep(secs)\<close> on a clock in seconds: ValueError for a negative length,
  otherwise the clock has advanced by the length asked for when the call returns.
\<close>

type_synonym clock = rat

definition sleep :: "rat \<Rightarrow> clock \<Rightarrow> error + clock" where
  "sleep secs t = (if secs < 0 then Inl ValueError else Inr (t + secs))"

text \<open>\<open>timer(x)\<close>: sleep one second, return \<open>x\<close>.\<close>

definition timer :: "'a \<Rightarrow> clock \<Rightarrow> error + ('a \<times> clock)" where
  "timer x t = (case sleep 1 t of Inl e \<Rightarrow> Inl e | Inr t' \<Rightarrow> Inr (x, t'))"

section \<open>Inputs\<close>

text \<open>The argument of \<open>calc_moving_average\<close> is a live two-dimensional array.\<close>

definition valid_matrix :: "heap \<Rightarrow> addr \<Rightarrow> bool" where
  "valid_matrix h p = (p < length h \<and> wf_array (h ! p))"

section \<open>Notions used in the statements\<close>

text \<open>
  The notebook's parallel run,
  \<^verbatim>\<open>ray.get([calc_moving_average_ray.remote(row) for row in data])\<close>:
  one task per row, the results in the order of the rows (what \<open>ray.get\<close> of a list of
  tasks returns), ready to be stacked by \<open>np.array\<close>.
\<close>

definition ray_rows :: "(cell list \<Rightarrow> cell) \<Rightarrow> cell list list \<Rightarrow> int \<Rightarrow> cell list list" where
  "ray_rows np_mean rows window = map (\<lambda>row. calc_moving_average_ray np_mean row window) rows"

text \<open>The elements of a row at the indices \<open>a\<close> through \<open>b\<close>, both included.\<close>

definition elements_between :: "cell list \<Rightarrow> int \<Rightarrow> int \<Rightarrow> cell list" where
  "elements_between row a b = map (\<lambda>k. row ! nat k) [a..b]"

text \<open>
  The mean in exact arithmetic, with the usual conventions for the special values. It is
  not numpy's mean, which rounds; the two agree wherever every partial sum and the
  quotient are doubles. It stands for \<open>np_mean\<close> in the worked examples only, whose data
  are small integers with such means (numpy returns the same values there), and no
  general statement below refers to it.
\<close>

definition exact_mean :: "cell list \<Rightarrow> cell" where
  "exact_mean xs =
     (if xs = [] \<or> NaN \<in> set xs \<or> (PosInf \<in> set xs \<and> NegInf \<in> set xs) then NaN
      else if PosInf \<in> set xs then PosInf
      else if NegInf \<in> set xs then NegInf
      else Finite (sum_list (map value_of xs) / of_nat (length xs)))"

text \<open>Sample inputs: two series of three days, and the numbers 1 to 12 as a series.\<close>

definition sample_heap :: heap where
  "sample_heap =
     [\<lparr>ncols = 3, cells = [[Finite 1, Finite 2, Finite 6], [Finite 3, Finite 3, Finite 6]]\<rparr>]"

definition twelve_days :: heap where
  "twelve_days =
     [\<lparr>ncols = 12,
        cells = [[Finite 1, Finite 2, Finite 3, Finite 4, Finite 5, Finite 6,
                  Finite 7, Finite 8, Finite 9, Finite 10, Finite 11, Finite 12]]\<rparr>]"

section \<open>Slices, and the loop as a whole\<close>

lemma drop_take_nth: "hi \<le> length xs \<Longrightarrow> drop lo (take hi xs) = map ((!) xs) [lo..<hi]"
  by (rule nth_equalityI) auto

lemma adjust_index_in_range: "0 \<le> i \<Longrightarrow> i \<le> int n \<Longrightarrow> adjust_index i n = nat i"
  by (simp add: adjust_index_def)

lemma py_slice_prefix:
  "j < length xs \<Longrightarrow> py_slice xs None (Some (int j + 1)) = take (Suc j) xs"
  by (simp add: py_slice_def adjust_index_def nat_add_distrib)

lemma py_slice_window:
  "0 \<le> a \<Longrightarrow> a \<le> int j \<Longrightarrow> j < length xs \<Longrightarrow>
   py_slice xs (Some a) (Some (int j + 1)) = drop (nat a) (take (Suc j) xs)"
  by (simp add: py_slice_def adjust_index_def nat_add_distrib)

lemma py_slice_empty:
  assumes "int j < a" "j < length xs"
  shows "py_slice xs (Some a) (Some (int j + 1)) = []"
proof -
  have hi: "adjust_index (int j + 1) (length xs) = Suc j"
    using assms(2) by (simp add: adjust_index_def nat_add_distrib)
  have "Suc j \<le> adjust_index a (length xs)"
    using assms by (auto simp: adjust_index_def)
  then show ?thesis
    by (simp add: py_slice_def hi)
qed

lemma upto_as_upt: "0 \<le> a \<Longrightarrow> [a..int j] = map int [nat a..<Suc j]"
proof (induction j)
  case 0
  then show ?case by (cases "a = 0") (simp_all add: upto.simps)
next
  case (Suc j)
  show ?case
  proof (cases "a \<le> int (Suc j)")
    case True
    then have "[a..int (Suc j)] = [a..int j] @ [int (Suc j)]"
      using upto_rec2[of a "int (Suc j)"] by simp
    with Suc True show ?thesis by (auto simp: nat_le_iff)
  next
    case False
    then show ?thesis by (simp add: nat_le_iff upto.simps)
  qed
qed

lemma fold_update_length:
  "length (fold (\<lambda>i cs. cs[i := g i]) ks cs) = length cs"
  by (induction ks arbitrary: cs) auto

lemma fold_update_nth:
  "k < length cs \<Longrightarrow>
   fold (\<lambda>i cs. cs[i := g i]) ks cs ! k = (if k \<in> set ks then g k else cs ! k)"
  by (induction ks arbitrary: cs) (auto simp: nth_list_update)

lemma fold_update_all:
  "fold (\<lambda>i cs. cs[i := g i]) [0..<length cs] cs = map g [0..<length cs]"
  by (rule nth_equalityI) (auto simp: fold_update_length fold_update_nth)

lemma ma_comprehension_length: "length (ma_comprehension np_mean row w) = length row"
  by (simp add: ma_comprehension_def)

lemma ma_loop_fold:
  assumes "p < length h"
    and "\<forall>i\<in>set ks. i < length (cells b) \<and> i < length (cells (h ! p))
           \<and> length (cells (h ! p) ! i) = ncols b"
  shows "ma_loop np_mean p (length h) w ks (h @ [b]) =
         Inr (h @ [b\<lparr>cells := fold (\<lambda>i cs. cs[i := ma_comprehension np_mean (cells (h ! p) ! i) w])
                                ks (cells b)\<rparr>])"
  using assms(2)
proof (induction ks arbitrary: b)
  case Nil
  then show ?case by simp
next
  case (Cons i ks)
  let ?v = "ma_comprehension np_mean (cells (h ! p) ! i) w"
  let ?b = "b\<lparr>cells := (cells b)[i := ?v]\<rparr>"
  have rd: "get_row (h @ [b]) p i = Inr (cells (h ! p) ! i)"
    using assms(1) Cons.prems by (simp add: get_row_def lookup_def nth_append)
  have wr: "set_row (h @ [b]) (length h) i ?v = Inr (h @ [?b])"
    using Cons.prems by (simp add: set_row_def lookup_def ma_comprehension_length)
  have "ma_loop np_mean p (length h) w ks (h @ [?b]) =
        Inr (h @ [?b\<lparr>cells := fold (\<lambda>i cs. cs[i := ma_comprehension np_mean (cells (h ! p) ! i) w])
                                ks (cells ?b)\<rparr>])"
    using Cons.prems by (intro Cons.IH) simp
  then show ?case by (simp add: rd wr)
qed

lemma calc_moving_average_eq:
  assumes "valid_matrix h p"
  shows "calc_moving_average np_mean h p w =
         Inr (length h,
              h @ [\<lparr>ncols = ncols (h ! p),
                     cells = map (\<lambda>row. ma_comprehension np_mean row w) (cells (h ! p))\<rparr>])"
proof -
  let ?a = "h ! p"
  let ?b = "np_zeros (shape ?a)"
  have p: "p < length h" and wf: "\<forall>r\<in>set (cells ?a). length r = ncols ?a"
    using assms by (auto simp: valid_matrix_def wf_array_def list_all_iff)
  have len: "length (cells ?b) = length (cells ?a)" and nc: "ncols ?b = ncols ?a"
    by (simp_all add: np_zeros_def shape_def)
  have "ma_loop np_mean p (length h) w [0..<length (cells ?a)] (h @ [?b]) =
        Inr (h @ [?b\<lparr>cells := fold (\<lambda>i cs. cs[i := ma_comprehension np_mean (cells ?a ! i) w])
                                [0..<length (cells ?a)] (cells ?b)\<rparr>])"
    using wf by (intro ma_loop_fold[OF p]) (simp add: len nc)
  moreover have "fold (\<lambda>i cs. cs[i := ma_comprehension np_mean (cells ?a ! i) w])
                   [0..<length (cells ?a)] (cells ?b)
                 = map (\<lambda>row. ma_comprehension np_mean row w) (cells ?a)"
    by (rule nth_equalityI) (simp_all add: fold_update_length fold_update_nth len)
  moreover have "?b\<lparr>cells := map (\<lambda>row. ma_comprehension np_mean row w) (cells ?a)\<rparr>
                 = \<lparr>ncols = ncols ?a, cells = map (\<lambda>row. ma_comprehension np_mean row w) (cells ?a)\<rparr>"
    by (simp add: np_zeros_def shape_def)
  ultimately show ?thesis
    using p by (simp add: calc_moving_average_def lookup_def alloc_def)
qed

section \<open>The elements of the comprehension\<close>

lemma elements_between_nat:
  assumes "0 \<le> a" "j < length row"
  shows "elements_between row a (int j) = drop (nat a) (take (Suc j) row)"
proof -
  have "elements_between row a (int j) = map ((!) row) [nat a..<Suc j]"
    using assms(1) by (simp add: elements_between_def upto_as_upt comp_def)
  also have "\<dots> = drop (nat a) (take (Suc j) row)"
    using assms(2) by (simp add: drop_take_nth)
  finally show ?thesis .
qed

lemma elements_between_empty: "b < a \<Longrightarrow> elements_between row a b = []"
  by (simp add: elements_between_def)

lemma ma_element_prefix:
  assumes "j < length row" "int j \<le> w"
  shows "ma_element np_mean row w j = np_mean (elements_between row 0 (int j))"
  using assms by (simp add: ma_element_def py_slice_prefix elements_between_nat)

lemma ma_element_window:
  assumes "j < length row" "w \<le> int j"
  shows "ma_element np_mean row w j = np_mean (elements_between row (int j - w) (int j))"
proof -
  consider "w < 0" | "0 \<le> w" "w < int j" | "w = int j"
    using assms(2) by linarith
  then show ?thesis
  proof cases
    case 1
    then have "int j < int j - w" by simp
    with assms(1) 1 show ?thesis
      by (simp add: ma_element_def py_slice_empty elements_between_empty)
  next
    case 2
    with assms(1) show ?thesis
      by (simp add: ma_element_def py_slice_window elements_between_nat)
  next
    case 3
    with assms(1) show ?thesis
      by (simp add: ma_element_prefix)
  qed
qed

lemma output_element:
  assumes "valid_matrix h p" "i < length (cells (h ! p))" "j < ncols (h ! p)"
  shows "\<exists>q h'. calc_moving_average np_mean h p w = Inr (q, h')
           \<and> cells (h' ! q) ! i ! j = ma_element np_mean (cells (h ! p) ! i) w j
           \<and> j < length (cells (h ! p) ! i)"
proof -
  have len: "length (cells (h ! p) ! i) = ncols (h ! p)"
    using assms(1,2) by (simp add: valid_matrix_def wf_array_def list_all_length)
  show ?thesis
    using assms(2,3) len
    by (simp add: calc_moving_average_eq[OF assms(1)] ma_comprehension_def)
qed

section \<open>The claims\<close>

text \<open>
  Claim C1. For every row \<open>i\<close> of the input matrix and every window \<open>w\<close>, at every
  index \<open>j\<close> of the row with \<open>j \<ge> w\<close> the output of \<open>calc_moving_average\<close> holds the
  mean, as \<open>np.mean\<close> computes it, of the input elements at the indices \<open>j - w\<close> through
  \<open>j\<close>, both included. The code takes its trailing slice only for \<open>j > w\<close>; at \<open>j = w\<close>
  the prefix \<open>row[:j+1]\<close> is the same run of elements. (For a negative \<open>w\<close> that run is
  empty, and both sides are numpy's mean of nothing.) The statement holds whatever
  function \<open>np_mean\<close> is, so for numpy's rounding mean in particular.
\<close>

theorem full_window_mean:
  assumes "valid_matrix h data" and "i < length (cells (h ! data))"
    and "j < ncols (h ! data)" and "w \<le> int j"
  shows "\<exists>ma_data h'. calc_moving_average np_mean h data w = Inr (ma_data, h')
           \<and> cells (h' ! ma_data) ! i ! j
               = np_mean (elements_between (cells (h ! data) ! i) (int j - w) (int j))"
  using output_element[OF assms(1-3), where w = w and np_mean = np_mean] assms(4)
  by (auto simp: ma_element_window)

theorem full_window_mean_witness:
  "valid_matrix sample_heap 0 \<and> 0 < length (cells (sample_heap ! 0))
   \<and> 2 < ncols (sample_heap ! 0) \<and> (1::int) \<le> int 2
   \<and> elements_between (cells (sample_heap ! 0) ! 0) (int 2 - 1) (int 2) = [Finite 2, Finite 6]
   \<and> (\<exists>ma_data h'. calc_moving_average exact_mean sample_heap 0 1 = Inr (ma_data, h')
         \<and> cells (h' ! ma_data) ! 0 ! 2 = Finite 4)"
proof -
  have v: "valid_matrix sample_heap 0" by (simp add: valid_matrix_def wf_array_def sample_heap_def)
  have i: "0 < length (cells (sample_heap ! 0))" by (simp add: sample_heap_def)
  have j: "2 < ncols (sample_heap ! 0)" by (simp add: sample_heap_def)
  have w: "(1::int) \<le> int 2" by simp
  have e: "elements_between (cells (sample_heap ! 0) ! 0) (int 2 - 1) (int 2) = [Finite 2, Finite 6]"
    by (simp add: elements_between_def sample_heap_def upto.simps)
  have m: "exact_mean [Finite 2, Finite 6] = Finite 4" by (simp add: exact_mean_def)
  show ?thesis
    using full_window_mean[OF v i j w, where np_mean = exact_mean] v i j e m by simp
qed


text \<open>
  Claim C2. For every row \<open>i\<close> of the input matrix and every window \<open>w\<close>, at every
  index \<open>j < w\<close> the output of \<open>calc_moving_average\<close> holds the mean, as \<open>np.mean\<close>
  computes it, of the input elements at the indices \<open>0\<close> through \<open>j\<close>, both included:
  a growing prefix mean. The statement holds whatever function \<open>np_mean\<close> is.
\<close>

theorem growing_prefix_mean:
  assumes "valid_matrix h data" and "i < length (cells (h ! data))"
    and "j < ncols (h ! data)" and "int j < w"
  shows "\<exists>ma_data h'. calc_moving_average np_mean h data w = Inr (ma_data, h')
           \<and> cells (h' ! ma_data) ! i ! j
               = np_mean (elements_between (cells (h ! data) ! i) 0 (int j))"
  using output_element[OF assms(1-3), where w = w and np_mean = np_mean] assms(4)
  by (auto simp: ma_element_prefix)

theorem growing_prefix_mean_witness:
  "valid_matrix sample_heap 0 \<and> 1 < length (cells (sample_heap ! 0))
   \<and> 2 < ncols (sample_heap ! 0) \<and> int 2 < 5
   \<and> elements_between (cells (sample_heap ! 0) ! 1) 0 (int 2) = [Finite 3, Finite 3, Finite 6]
   \<and> (\<exists>ma_data h'. calc_moving_average exact_mean sample_heap 0 5 = Inr (ma_data, h')
         \<and> cells (h' ! ma_data) ! 1 ! 2 = Finite 4)"
proof -
  have v: "valid_matrix sample_heap 0" by (simp add: valid_matrix_def wf_array_def sample_heap_def)
  have i: "1 < length (cells (sample_heap ! 0))" by (simp add: sample_heap_def)
  have j: "2 < ncols (sample_heap ! 0)" by (simp add: sample_heap_def)
  have w: "int 2 < 5" by simp
  have e: "elements_between (cells (sample_heap ! 0) ! 1) 0 (int 2) = [Finite 3, Finite 3, Finite 6]"
    by (simp add: elements_between_def sample_heap_def upto.simps)
  have m: "exact_mean [Finite 3, Finite 3, Finite 6] = Finite 4" by (simp add: exact_mean_def)
  show ?thesis
    using growing_prefix_mean[OF v i j w, where np_mean = exact_mean] v i j e m by simp
qed

text \<open>
  Claim C3. Every output element is the mean of a trailing window of at most \<open>window\<close>
  elements, the first \<open>window\<close> indices using a shorter, growing one. The notebook
  announces a 10-day moving average for the default \<open>window = 10\<close>. The code's full
  window \<open>row[j-window:j+1]\<close> has \<open>window + 1\<close> elements: on the series 1, ..., 12 the
  default run gives at index 11 the mean of the eleven elements at the indices 1 to 11,
  whatever the mean function; their mean is 7 (a double, so numpy's value too), where
  the mean of the last ten is 15/2.
\<close>

theorem default_window_averages_eleven_days:
  "(\<exists>ma_data h'. calc_moving_average np_mean twelve_days 0 default_window = Inr (ma_data, h')
      \<and> cells (h' ! ma_data) ! 0 ! 11
          = np_mean (elements_between (cells (twelve_days ! 0) ! 0) 1 11))
   \<and> length (elements_between (cells (twelve_days ! 0) ! 0) 1 11) = 11
   \<and> (\<exists>ma_data h'. calc_moving_average exact_mean twelve_days 0 default_window = Inr (ma_data, h')
      \<and> cells (h' ! ma_data) ! 0 ! 11 = Finite 7)
   \<and> exact_mean (elements_between (cells (twelve_days ! 0) ! 0) 1 11) = Finite 7
   \<and> exact_mean (elements_between (cells (twelve_days ! 0) ! 0) 2 11) = Finite (15 / 2)"
proof -
  have v: "valid_matrix twelve_days 0"
    by (simp add: valid_matrix_def wf_array_def twelve_days_def)
  have r: "cells (twelve_days ! 0) ! 0 =
             [Finite 1, Finite 2, Finite 3, Finite 4, Finite 5, Finite 6,
              Finite 7, Finite 8, Finite 9, Finite 10, Finite 11, Finite 12]"
    by (simp add: twelve_days_def)
  have e1: "elements_between (cells (twelve_days ! 0) ! 0) 1 11 =
             [Finite 2, Finite 3, Finite 4, Finite 5, Finite 6,
              Finite 7, Finite 8, Finite 9, Finite 10, Finite 11, Finite 12]"
    unfolding r by (simp add: elements_between_def upto.simps)
  have e2: "elements_between (cells (twelve_days ! 0) ! 0) 2 11 =
             [Finite 3, Finite 4, Finite 5, Finite 6,
              Finite 7, Finite 8, Finite 9, Finite 10, Finite 11, Finite 12]"
    unfolding r by (simp add: elements_between_def upto.simps)
  have m1: "exact_mean (elements_between (cells (twelve_days ! 0) ! 0) 1 11) = Finite 7"
    unfolding e1 by (simp add: exact_mean_def)
  have m2: "exact_mean (elements_between (cells (twelve_days ! 0) ! 0) 2 11) = Finite (15 / 2)"
    unfolding e2 by (simp add: exact_mean_def)
  have i: "0 < length (cells (twelve_days ! 0))" and j: "11 < ncols (twelve_days ! 0)"
    by (simp_all add: twelve_days_def)
  have el: "ma_element f (cells (twelve_days ! 0) ! 0) default_window 11
              = f (elements_between (cells (twelve_days ! 0) ! 0) 1 11)" for f
    using ma_element_window[where j = 11 and row = "cells (twelve_days ! 0) ! 0"
        and w = default_window and np_mean = f]
    by (simp add: r default_window_def)
  have g: "\<exists>ma_data h'. calc_moving_average f twelve_days 0 default_window = Inr (ma_data, h')
             \<and> cells (h' ! ma_data) ! 0 ! 11
                 = f (elements_between (cells (twelve_days ! 0) ! 0) 1 11)" for f
    using output_element[OF v i j, where w = default_window and np_mean = f] el[of f]
    by auto
  have l: "length (elements_between (cells (twelve_days ! 0) ! 0) 1 11) = 11"
    unfolding e1 by simp
  show ?thesis
    using g[of np_mean] g[of exact_mean] l m1 m2 by simp
qed

text \<open>
  Claim C4. Computing every row with the row-level \<open>calc_moving_average_ray\<close> and
  putting the resulting rows together in order gives the rows that \<open>calc_moving_average\<close>
  writes for the whole matrix: the result does not depend on splitting the work over
  the rows. (Both runs call the same \<open>np.mean\<close>; the rows are compared element by
  element.)
\<close>

theorem row_decomposition:
  assumes "valid_matrix h data"
  shows "\<exists>ma_data h'. calc_moving_average np_mean h data w = Inr (ma_data, h')
           \<and> cells (h' ! ma_data) = ray_rows np_mean (cells (h ! data)) w"
  by (simp add: calc_moving_average_eq[OF assms] ray_rows_def calc_moving_average_ray_def)

theorem row_decomposition_witness:
  "valid_matrix sample_heap 0
   \<and> ray_rows exact_mean (cells (sample_heap ! 0)) 1
       = [[Finite 1, Finite (3 / 2), Finite 4], [Finite 3, Finite 3, Finite (9 / 2)]]
   \<and> (\<exists>ma_data h'. calc_moving_average exact_mean sample_heap 0 1 = Inr (ma_data, h')
         \<and> cells (h' ! ma_data) = ray_rows exact_mean (cells (sample_heap ! 0)) 1)"
proof -
  have v: "valid_matrix sample_heap 0" by (simp add: valid_matrix_def wf_array_def sample_heap_def)
  have r: "ray_rows exact_mean (cells (sample_heap ! 0)) 1
             = [[Finite 1, Finite (3 / 2), Finite 4], [Finite 3, Finite 3, Finite (9 / 2)]]"
    by code_simp
  show ?thesis
    using row_decomposition[OF v, where w = 1 and np_mean = exact_mean] v r by simp
qed

text \<open>
  Claim C5. The output of \<open>calc_moving_average\<close> has the shape of its input, and every
  output row has exactly the length of the input row it comes from: one output element
  for each input element, whatever the window.
\<close>

theorem output_length:
  assumes "valid_matrix h data"
  shows "\<exists>ma_data h'. calc_moving_average np_mean h data w = Inr (ma_data, h')
           \<and> shape (h' ! ma_data) = shape (h ! data)
           \<and> (\<forall>i<length (cells (h ! data)).
                 length (cells (h' ! ma_data) ! i) = length (cells (h ! data) ! i))"
  by (simp add: calc_moving_average_eq[OF assms] shape_def ma_comprehension_length)

theorem output_length_witness:
  "valid_matrix sample_heap 0
   \<and> shape (sample_heap ! 0) = (2, 3)
   \<and> (\<exists>ma_data h'. calc_moving_average exact_mean sample_heap 0 1 = Inr (ma_data, h')
         \<and> shape (h' ! ma_data) = (2, 3)
         \<and> (\<forall>i<length (cells (sample_heap ! 0)).
               length (cells (h' ! ma_data) ! i) = length (cells (sample_heap ! 0) ! i)))"
proof -
  have v: "valid_matrix sample_heap 0" by (simp add: valid_matrix_def wf_array_def sample_heap_def)
  have s: "shape (sample_heap ! 0) = (2, 3)"
    by (simp add: sample_heap_def shape_def)
  show ?thesis
    using output_length[OF v, where w = 1 and np_mean = exact_mean] v s by auto
qed

text \<open>
  Claim C6. \<open>timer\<close> returns exactly its argument \<open>x\<close>: the pause moves the clock and
  leaves the returned value alone.
\<close>

theorem timer_returns_argument: "\<exists>t'. timer x t = Inr (x, t')"
  by (simp add: timer_def sleep_def)

text \<open>
  Claim C7. Neither function can fail: \<open>timer\<close> returns for every argument, and
  \<open>calc_moving_average\<close> returns for every matrix and every window, none of the error
  branches of the model (of the sleep, of the row read, of the row assignment) being
  reached.
\<close>

theorem no_error_branch:
  "(\<exists>r. timer x t = Inr r)
   \<and> (valid_matrix h data \<longrightarrow> (\<exists>r. calc_moving_average np_mean h data w = Inr r))"
  by (simp add: timer_def sleep_def calc_moving_average_eq)

theorem no_error_branch_witness:
  "valid_matrix sample_heap 0
   \<and> (\<exists>r. timer (5::nat) 0 = Inr r)
   \<and> (\<exists>r. calc_moving_average exact_mean sample_heap 0 (- 1) = Inr r)"
proof -
  have v: "valid_matrix sample_heap 0" by (simp add: valid_matrix_def wf_array_def sample_heap_def)
  show ?thesis
    using no_error_branch[where x = "5::nat" and t = 0 and h = sample_heap and data = 0
        and w = "- 1" and np_mean = exact_mean] v by simp
qed

text \<open>
  Claim C8. \<open>calc_moving_average\<close> never modifies its input: after the call the input
  array is what it was, as is every other object that existed before; the result is a
  newly allocated array, of the shape of the input, and the only object added.
\<close>

theorem input_unchanged:
  assumes "valid_matrix h data"
  shows "\<exists>ma_data h'. calc_moving_average np_mean h data w = Inr (ma_data, h')
           \<and> h' ! data = h ! data
           \<and> take (length h) h' = h
           \<and> ma_data = length h
           \<and> length h' = Suc (length h)
           \<and> shape (h' ! ma_data) = shape (h ! data)"
proof -
  have "data < length h"
    using assms by (simp add: valid_matrix_def)
  then show ?thesis
    by (simp add: calc_moving_average_eq[OF assms] nth_append shape_def)
qed

theorem input_unchanged_witness:
  "valid_matrix sample_heap 0
   \<and> (\<exists>ma_data h'. calc_moving_average exact_mean sample_heap 0 1 = Inr (ma_data, h')
         \<and> h' ! 0 = \<lparr>ncols = 3, cells = [[Finite 1, Finite 2, Finite 6], [Finite 3, Finite 3, Finite 6]]\<rparr>
         \<and> take 1 h' = sample_heap
         \<and> ma_data = 1
         \<and> length h' = 2)"
proof -
  have v: "valid_matrix sample_heap 0" by (simp add: valid_matrix_def wf_array_def sample_heap_def)
  have s: "length sample_heap = 1"
    "sample_heap ! 0 = \<lparr>ncols = 3, cells = [[Finite 1, Finite 2, Finite 6], [Finite 3, Finite 3, Finite 6]]\<rparr>"
    by (simp_all add: sample_heap_def)
  show ?thesis
    using input_unchanged[OF v, where w = 1 and np_mean = exact_mean] v s by auto
qed

text \<open>
  Claim C9. With a window \<open>w \<ge> 0\<close> the mean is never taken over an empty slice. At
  every index \<open>j\<close> of a row the prefix \<open>row[:j+1]\<close> has exactly \<open>j + 1\<close> elements; and
  when the trailing branch is taken (\<open>j > w\<close>) the start \<open>j - w\<close> of the slice is at
  least 1, it is used as it is (no counting from the end, no clamping), and the slice
  has exactly \<open>w + 1\<close> elements. Each branch takes the mean of the slice named.
\<close>

theorem mean_window_never_empty:
  assumes "0 \<le> w" and "j < length row"
  shows "length (py_slice row None (Some (int j + 1))) = j + 1
         \<and> (if w < int j
            then 1 \<le> int j - w
               \<and> adjust_index (int j - w) (length row) = nat (int j - w)
               \<and> length (py_slice row (Some (int j - w)) (Some (int j + 1))) = nat w + 1
               \<and> ma_element np_mean row w j
                   = np_mean (py_slice row (Some (int j - w)) (Some (int j + 1)))
            else ma_element np_mean row w j = np_mean (py_slice row None (Some (int j + 1))))"
proof -
  have pre: "length (py_slice row None (Some (int j + 1))) = j + 1"
    using assms(2) by (simp add: py_slice_prefix)
  show ?thesis
  proof (cases "w < int j")
    case True
    have "adjust_index (int j - w) (length row) = nat (int j - w)"
      using assms True by (intro adjust_index_in_range) simp_all
    moreover have "length (py_slice row (Some (int j - w)) (Some (int j + 1))) = nat w + 1"
      using assms True by (simp add: py_slice_window)
    ultimately show ?thesis
      using pre True by (simp add: ma_element_def)
  next
    case False
    then show ?thesis
      using pre by (simp add: ma_element_def)
  qed
qed

theorem mean_window_never_empty_witness:
  "(0::int) \<le> 1 \<and> 2 < length [Finite 1, Finite 2, Finite 6]
   \<and> py_slice [Finite 1, Finite 2, Finite 6] None (Some (int 2 + 1)) = [Finite 1, Finite 2, Finite 6]
   \<and> py_slice [Finite 1, Finite 2, Finite 6] (Some (int 2 - 1)) (Some (int 2 + 1)) = [Finite 2, Finite 6]
   \<and> adjust_index (int 2 - 1) 3 = 1
   \<and> ma_element exact_mean [Finite 1, Finite 2, Finite 6] 1 2 = Finite 4"
proof -
  have w: "(0::int) \<le> 1" by simp
  have j: "2 < length [Finite 1, Finite 2, Finite 6]" by simp
  have s: "py_slice [Finite 1, Finite 2, Finite 6] None (Some (int 2 + 1)) = [Finite 1, Finite 2, Finite 6]"
    "py_slice [Finite 1, Finite 2, Finite 6] (Some (int 2 - 1)) (Some (int 2 + 1)) = [Finite 2, Finite 6]"
    by (simp_all add: py_slice_def adjust_index_def)
  have m: "exact_mean [Finite 2, Finite 6] = Finite 4" by (simp add: exact_mean_def)
  have a: "adjust_index (int 2 - 1) 3 = 1" by (simp add: adjust_index_def)
  have e: "ma_element exact_mean [Finite 1, Finite 2, Finite 6] 1 2 = Finite 4"
    using mean_window_never_empty[OF w j, where np_mean = exact_mean] s m by simp
  show ?thesis
    using s a e by simp
qed

text \<open>
  Claim C10. When the rows have at most \<open>window + 1\<close> elements, \<open>calc_moving_average\<close>
  is the cumulative prefix mean: at no index is the trailing branch taken (\<open>j > window\<close>
  is false throughout), and every output element \<open>j\<close> is the mean, as \<open>np.mean\<close>
  computes it, of the elements \<open>0\<close> through \<open>j\<close>. The statement holds whatever function
  \<open>np_mean\<close> is.
\<close>

theorem short_rows_prefix_mean:
  assumes "valid_matrix h data" and "int (ncols (h ! data)) \<le> w + 1"
  shows "\<exists>ma_data h'. calc_moving_average np_mean h data w = Inr (ma_data, h')
           \<and> (\<forall>i<length (cells (h ! data)). \<forall>j<ncols (h ! data).
                 \<not> int j > w
                 \<and> cells (h' ! ma_data) ! i ! j
                     = np_mean (elements_between (cells (h ! data) ! i) 0 (int j)))"
proof -
  have wf: "\<forall>i<length (cells (h ! data)). length (cells (h ! data) ! i) = ncols (h ! data)"
    using assms(1) by (simp add: valid_matrix_def wf_array_def list_all_length)
  have le: "\<forall>j<ncols (h ! data). int j \<le> w"
    using assms(2) by auto
  have "cells ((h @ [\<lparr>ncols = ncols (h ! data),
                        cells = map (\<lambda>row. ma_comprehension np_mean row w) (cells (h ! data))\<rparr>])
                ! length h) ! i ! j
          = np_mean (elements_between (cells (h ! data) ! i) 0 (int j))"
    if "i < length (cells (h ! data))" "j < ncols (h ! data)" for i j
    using that wf le by (simp add: ma_comprehension_def ma_element_prefix)
  then show ?thesis
    using le by (auto simp: calc_moving_average_eq[OF assms(1)])
qed

theorem short_rows_prefix_mean_witness:
  "valid_matrix sample_heap 0 \<and> int (ncols (sample_heap ! 0)) \<le> 2 + 1
   \<and> calc_moving_average exact_mean sample_heap 0 2 =
         Inr (1, sample_heap @ [\<lparr>ncols = 3, cells = [[Finite 1, Finite (3 / 2), Finite 3],
                                                     [Finite 3, Finite 3, Finite 4]]\<rparr>])
   \<and> (\<exists>ma_data h'. calc_moving_average exact_mean sample_heap 0 2 = Inr (ma_data, h')
         \<and> (\<forall>i<length (cells (sample_heap ! 0)). \<forall>j<ncols (sample_heap ! 0).
                 \<not> int j > 2
                 \<and> cells (h' ! ma_data) ! i ! j
                     = exact_mean (elements_between (cells (sample_heap ! 0) ! i) 0 (int j))))"
proof -
  have v: "valid_matrix sample_heap 0" by (simp add: valid_matrix_def wf_array_def sample_heap_def)
  have n: "int (ncols (sample_heap ! 0)) \<le> 2 + 1" by (simp add: sample_heap_def)
  have c: "calc_moving_average exact_mean sample_heap 0 2 =
             Inr (1, sample_heap @ [\<lparr>ncols = 3, cells = [[Finite 1, Finite (3 / 2), Finite 3], [Finite 3, Finite 3, Finite 4]]\<rparr>])"
    by code_simp
  from short_rows_prefix_mean[OF v n, where np_mean = exact_mean] obtain ma_data h' where
    "calc_moving_average exact_mean sample_heap 0 2 = Inr (ma_data, h')
     \<and> (\<forall>i<length (cells (sample_heap ! 0)). \<forall>j<ncols (sample_heap ! 0).
                 \<not> int j > 2
                 \<and> cells (h' ! ma_data) ! i ! j
                     = exact_mean (elements_between (cells (sample_heap ! 0) ! i) 0 (int j)))"
    by blast
  then show ?thesis
    using v n c by blast
qed

end
